theory Spec2Isabelle
  imports Complex_Main "HOL-Library.Log_Nat"
begin

section \<open>Strings and the display formatter (src/utils/formatter.js)\<close>

text \<open>
  JavaScript strings are modelled as \<open>string\<close>; the payloads of the two data sources
  carry ASCII text only (digits, hyphens, colons, the letter T), where a character, a
  UTF-16 code unit and a byte coincide. A value that may be \<open>undefined\<close> or \<open>null\<close>
  is an \<open>option\<close>, with \<open>None\<close> for the absent value.
\<close>

definition slice :: "nat \<Rightarrow> nat \<Rightarrow> 'a list \<Rightarrow> 'a list" where
  \<comment> \<open>\<open>s.slice(a, b)\<close> for non-negative \<open>a\<close> and \<open>b\<close>; both ends are clamped to the length.\<close>
  "slice a b s = take (b - a) (drop a s)"

definition slice_last :: "nat \<Rightarrow> 'a list \<Rightarrow> 'a list" where
  \<comment> \<open>\<open>xs.slice(-n)\<close>: the start index is \<open>max (length - n) 0\<close>.\<close>
  "slice_last n xs = drop (length xs - n) xs"

definition array_last :: "'a list \<Rightarrow> 'a option" where
  \<comment> \<open>\<open>xs[xs.length - 1]\<close>: \<open>undefined\<close> on the empty array.\<close>
  "array_last xs = (if xs = [] then None else Some (last xs))"

definition startsWith :: "string \<Rightarrow> string \<Rightarrow> bool" where
  "startsWith s p = (take (length p) s = p)"

definition formatDisplayDate :: "string option \<Rightarrow> string" where
  "formatDisplayDate dateStr =
     (case dateStr of
        None \<Rightarrow> ''N/A''
      | Some s \<Rightarrow>
          if s \<noteq> [] \<and> length s = 8 then
            (let year = slice 0 4 s; month = slice 4 6 s; day = slice 6 8 s
             in day @ ''/'' @ month @ ''/'' @ year)
          else ''N/A'')"

section \<open>Numbers\<close>

text \<open>
  The payloads reach the dashboard parsed, so their numbers are doubles. A number is
  modelled by the rational that is its exact value, and every arithmetic operation of
  the source is the exact operation followed by \<open>fl\<close>, the rounding to the nearest
  double (ties to the even significand, subnormal numbers included). Magnitudes from
  \<open>2^1024\<close> on, where a double is \<open>Infinity\<close>, are outside the model, and so is \<open>NaN\<close>,
  which cannot occur in a parsed JSON document: the only non-numbers a sample can be
  are \<open>null\<close> and, for a read past the end of an array or of a missing key,
  \<open>undefined\<close>.
\<close>

datatype jsval = Undefined | Null | Num rat

definition pow2 :: "int \<Rightarrow> rat" where
  "pow2 k = (if 0 \<le> k then 2 ^ nat k else 1 / 2 ^ nat (- k))"

definition ilog2 :: "rat \<Rightarrow> int" where
  \<comment> \<open>For \<open>x > 0\<close>, the \<open>e\<close> with \<open>2^e \<le> x < 2^(e + 1)\<close>: with \<open>x = p / q\<close> it is the
      difference of the bit lengths of \<open>p\<close> and \<open>q\<close>, or one less.\<close>
  "ilog2 x =
     (let (p, q) = quotient_of x; k = bitlen p - bitlen q
      in if pow2 k \<le> x then k else k - 1)"

definition rne :: "rat \<Rightarrow> int" where
  \<comment> \<open>The nearest integer, the even one on a tie.\<close>
  "rne r =
     (let f = \<lfloor>r\<rfloor>; d = r - of_int f
      in if d < 1 / 2 then f else if 1 / 2 < d then f + 1 else if even f then f else f + 1)"

definition fl :: "rat \<Rightarrow> rat" where
  \<comment> \<open>The nearest double: 53 significant bits, exponents from \<open>-1022\<close> up.\<close>
  "fl x =
     (if x = 0 then 0
      else
        (let e = max (ilog2 \<bar>x\<bar>) (- 1022); ulp = pow2 (e - 52)
         in of_int (rne (x / ulp)) * ulp))"

definition round1 :: "rat \<Rightarrow> rat" where
  \<comment> \<open>\<open>parseFloat(x.toFixed(1))\<close>: \<open>toFixed\<close> picks the integer \<open>n\<close> with \<open>n / 10\<close>
      nearest to the exact value of \<open>x\<close>, the larger one on a tie, and treats a negative
      \<open>x\<close> through \<open>- x\<close>. The result \<open>n / 10\<close> stands for the double that \<open>parseFloat\<close>
      reads from these digits; no arithmetic is done on it afterwards.\<close>
  "round1 x =
     (if x < 0 then - (of_int \<lfloor>(- x) * 10 + 1 / 2\<rfloor> / 10)
      else of_int \<lfloor>x * 10 + 1 / 2\<rfloor> / 10)"

datatype error = DataError string | TypeError | RangeError

definition toFixed1 :: "jsval \<Rightarrow> error + rat" where
  \<comment> \<open>\<open>parseFloat(value.toFixed(1))\<close>: reading \<open>toFixed\<close> off \<open>undefined\<close> or \<open>null\<close> throws.\<close>
  "toFixed1 v = (case v of Num x \<Rightarrow> Inr (round1 x) | _ \<Rightarrow> Inl TypeError)"

definition or0 :: "rat option \<Rightarrow> rat" where
  \<comment> \<open>\<open>v || 0\<close> on a field that is a number, \<open>null\<close> or \<open>undefined\<close>; the only
      falsy number here is 0 itself.\<close>
  "or0 v = (case v of None \<Rightarrow> 0 | Some x \<Rightarrow> x)"

section \<open>Objects and the order of their keys\<close>

text \<open>
  An object built by \<open>JSON.parse\<close> is the list of its own properties in creation order.
  \<open>Object.keys\<close> lists the keys that are array indices first, in ascending numeric
  order, and then the other keys in creation order.
\<close>

type_synonym 'v obj = "(string \<times> 'v) list"

definition is_digit :: "char \<Rightarrow> bool" where
  "is_digit c = (48 \<le> (of_char c :: int) \<and> (of_char c :: int) \<le> 57)"

definition digit_val :: "char \<Rightarrow> int" where
  "digit_val c = of_char c - 48"

fun digits_acc :: "int \<Rightarrow> string \<Rightarrow> int" where
  "digits_acc n [] = n"
| "digits_acc n (c # cs) = digits_acc (10 * n + digit_val c) cs"

definition digits_val :: "string \<Rightarrow> int" where
  "digits_val s = digits_acc 0 s"

definition is_array_index :: "string \<Rightarrow> bool" where
  \<comment> \<open>A canonical numeric string denoting an integer of at most \<open>2^32 - 2\<close>.\<close>
  "is_array_index k =
     (k \<noteq> [] \<and> list_all is_digit k \<and> (k = ''0'' \<or> hd k \<noteq> CHR ''0'')
      \<and> digits_val k \<le> 4294967294)"

definition object_keys :: "'v obj \<Rightarrow> string list" where
  "object_keys ps =
     sort_key digits_val (filter is_array_index (map fst ps))
     @ filter (\<lambda>k. \<not> is_array_index k) (map fst ps)"

definition get_prop :: "'v obj option \<Rightarrow> string \<Rightarrow> 'v option" where
  \<comment> \<open>\<open>o?.[k]\<close>: \<open>undefined\<close> when \<open>o\<close> is absent or has no property \<open>k\<close>.\<close>
  "get_prop ob k = (case ob of None \<Rightarrow> None | Some ps \<Rightarrow> map_of ps k)"

definition num_prop :: "rat obj option \<Rightarrow> string \<Rightarrow> jsval" where
  "num_prop ob k = (case get_prop ob k of None \<Rightarrow> Undefined | Some x \<Rightarrow> Num x)"

section \<open>Dates: the local-time constructor and \<open>toISOString\<close>\<close>

text \<open>
  A \<open>Date\<close> is its time value in milliseconds since the epoch, \<open>None\<close> for an invalid
  date. The host's time zone enters through \<open>tz\<close>, the offset in milliseconds of local
  time from UTC at a given local time (positive east of Greenwich).
\<close>

definition msPerDay :: int where
  "msPerDay = 86400000"

definition days_from_civil :: "int \<Rightarrow> int \<Rightarrow> int \<Rightarrow> int" where
  \<comment> \<open>Day number, counted from 1970-01-01, of year \<open>y\<close>, month \<open>m\<close> (1 to 12), day \<open>d\<close>.\<close>
  "days_from_civil y m d =
     (let y' = (if m \<le> 2 then y - 1 else y);
          era = y' div 400;
          yoe = y' - era * 400;
          doy = (153 * (if m > 2 then m - 3 else m + 9) + 2) div 5 + d - 1;
          doe = yoe * 365 + yoe div 4 - yoe div 100 + doy
      in era * 146097 + doe - 719468)"

definition civil_from_days :: "int \<Rightarrow> int \<times> int \<times> int" where
  "civil_from_days z =
     (let z' = z + 719468;
          era = z' div 146097;
          doe = z' - era * 146097;
          yoe = (doe - doe div 1460 + doe div 36524 - doe div 146096) div 365;
          doy = doe - (365 * yoe + yoe div 4 - yoe div 100);
          mp = (5 * doy + 2) div 153;
          d = doy - (153 * mp + 2) div 5 + 1;
          m = (if mp < 10 then mp + 3 else mp - 9);
          y = yoe + era * 400
      in (if m \<le> 2 then y + 1 else y, m, d))"

definition MakeDay :: "int \<Rightarrow> int \<Rightarrow> int \<Rightarrow> int" where
  \<comment> \<open>Month \<open>m\<close> counts from 0 and may lie outside 0 to 11; the day may lie outside the month.\<close>
  "MakeDay y m dt = days_from_civil (y + m div 12) (m mod 12 + 1) 1 + dt - 1"

definition new_Date :: "(int \<Rightarrow> int) \<Rightarrow> int option \<Rightarrow> int option \<Rightarrow> int option \<Rightarrow> int option" where
  \<comment> \<open>\<open>new Date(year, month, date)\<close>: the arguments are read as local time.\<close>
  "new_Date tz year month dt =
     (case (year, month, dt) of
        (Some y, Some m, Some d) \<Rightarrow>
          (let yr = (if 0 \<le> y \<and> y \<le> 99 then 1900 + y else y);
               local = MakeDay yr m d * msPerDay;
               u = local - tz local
           in if \<bar>u\<bar> \<le> 8640000000000000 then Some u else None)
      | _ \<Rightarrow> None)"

definition digit_char :: "int \<Rightarrow> char" where
  "digit_char n = char_of (48 + n mod 10)"

definition pad2 :: "int \<Rightarrow> string" where
  "pad2 n = [digit_char (n div 10), digit_char n]"

definition pad3 :: "int \<Rightarrow> string" where
  "pad3 n = digit_char (n div 100) # pad2 n"

definition pad4 :: "int \<Rightarrow> string" where
  "pad4 n = digit_char (n div 1000) # pad3 n"

definition pad6 :: "int \<Rightarrow> string" where
  "pad6 n = digit_char (n div 100000) # digit_char (n div 10000) # pad4 n"

definition iso_year :: "int \<Rightarrow> string" where
  "iso_year y =
     (if 0 \<le> y \<and> y \<le> 9999 then pad4 y
      else (if y < 0 then ''-'' else ''+'') @ pad6 \<bar>y\<bar>)"

definition toISOString :: "int option \<Rightarrow> error + string" where
  "toISOString date =
     (case date of
        None \<Rightarrow> Inl RangeError
      | Some tv \<Rightarrow>
          (let (y, m, d) = civil_from_days (tv div msPerDay);
               ms = tv mod msPerDay
           in Inr (iso_year y @ ''-'' @ pad2 m @ ''-'' @ pad2 d @ ''T''
                   @ pad2 (ms div 3600000) @ '':'' @ pad2 (ms div 60000 mod 60)
                   @ '':'' @ pad2 (ms div 1000 mod 60) @ ''.'' @ pad3 (ms mod 1000)
                   @ ''Z'')))"

definition formatDateWithoutHyphen :: "int option \<Rightarrow> error + string" where
  \<comment> \<open>\<open>date.toISOString().split('T')[0]\<close>\<close>
  "formatDateWithoutHyphen date =
     (case toISOString date of
        Inl e \<Rightarrow> Inl e
      | Inr s \<Rightarrow> Inr (takeWhile (\<lambda>c. c \<noteq> CHR ''T'') s))"

definition formatDateWithHyphen :: "int option \<Rightarrow> error + string" where
  \<comment> \<open>\<open>date.toISOString().split('T')[0].replace(/-/g, '')\<close>\<close>
  "formatDateWithHyphen date =
     (case formatDateWithoutHyphen date of
        Inl e \<Rightarrow> Inl e
      | Inr s \<Rightarrow> Inr (filter (\<lambda>c. c \<noteq> CHR ''-'') s))"

definition is_ws :: "char \<Rightarrow> bool" where
  "is_ws c = ((of_char c :: int) \<in> {9, 10, 11, 12, 13, 32})"

definition hex_val :: "char \<Rightarrow> int option" where
  "hex_val c =
     (let n = (of_char c :: int)
      in if 48 \<le> n \<and> n \<le> 57 then Some (n - 48)
         else if 97 \<le> n \<and> n \<le> 102 then Some (n - 87)
         else if 65 \<le> n \<and> n \<le> 70 then Some (n - 55)
         else None)"

definition radix_digit :: "int \<Rightarrow> char \<Rightarrow> bool" where
  "radix_digit r c = (case hex_val c of None \<Rightarrow> False | Some v \<Rightarrow> v < r)"

fun radix_acc :: "int \<Rightarrow> int \<Rightarrow> string \<Rightarrow> int" where
  "radix_acc r n [] = n"
| "radix_acc r n (c # cs) = radix_acc r (r * n + (case hex_val c of None \<Rightarrow> 0 | Some v \<Rightarrow> v)) cs"

definition parseInt :: "string \<Rightarrow> int option" where
  \<comment> \<open>\<open>parseInt(s)\<close> with no radix: leading white space, a sign, a \<open>0x\<close> prefix, then the
      longest run of digits; \<open>NaN\<close> (here \<open>None\<close>) when that run is empty.\<close>
  "parseInt s =
     (let s1 = dropWhile is_ws s;
          neg = (take 1 s1 = ''-'');
          s2 = (if take 1 s1 = ''-'' \<or> take 1 s1 = ''+'' then drop 1 s1 else s1);
          hex = (take 2 s2 = ''0x'' \<or> take 2 s2 = ''0X'');
          r = (if hex then 16 else 10);
          s3 = (if hex then drop 2 s2 else s2);
          z = takeWhile (radix_digit r) s3
      in if z = [] then None
         else Some ((if neg then - 1 else 1) * radix_acc r 0 z))"

section \<open>The two payloads and the dashboard's data (src/App.jsx)\<close>

text \<open>
  The primary payload is \<open>{ properties: { parameter: { T2M: {<YYYYMMDD>: number}, RH2M,
  WS10M, ALLSKY_SFC_SW_DWN } } }\<close>; each level may be missing. The secondary payload is
  \<open>null\<close>, or an object with a possibly truthy \<open>error\<close> property and a possibly missing
  \<open>hourly\<close> object, which holds the \<open>time\<close> array and one array of samples (numbers or
  \<open>null\<close>) per radiation variable.
\<close>

type_synonym date_series = "rat obj"

type_synonym parameter_set = "date_series obj"

record properties_obj =
  parameter :: "parameter_set option"

record daily_payload =
  properties :: "properties_obj option"

record hourly_obj =
  time :: "string list option"
  variables :: "rat option list obj"

record radiation_payload =
  error_flag :: bool
  hourly :: "hourly_obj option"

record chart_item =
  date :: string
  temp :: "rat option"
  humidity :: "rat option"
  wind :: "rat option"
  solar :: "rat option"

record current_data =
  cur_temp :: rat
  cur_humidity :: rat
  cur_wind :: rat
  cur_solar :: rat

record snapshot =
  current :: current_data
  chart :: "chart_item list"
  latestDate :: "string option"

definition array_get :: "rat option list \<Rightarrow> nat \<Rightarrow> jsval" where
  \<comment> \<open>\<open>xs[i]\<close>: \<open>undefined\<close> past the end.\<close>
  "array_get xs i =
     (if i < length xs then (case xs ! i of None \<Rightarrow> Null | Some x \<Rightarrow> Num x) else Undefined)"

definition safeValueParameters :: "parameter_set \<Rightarrow> string \<Rightarrow> string \<Rightarrow> error + rat option" where
  \<comment> \<open>\<open>value = params[param]?.[date]\<close>, then \<open>value !== -999 ? parseFloat(value.toFixed(1))
      : null\<close>.\<close>
  "safeValueParameters params param d =
     (let val = num_prop (map_of params param) d
      in if val \<noteq> Num (- 999) then
           (case toFixed1 val of Inl e \<Rightarrow> Inl e | Inr x \<Rightarrow> Inr (Some x))
         else Inr None)"

definition hourly_samples :: "radiation_payload option \<Rightarrow> string \<Rightarrow> (hourly_obj \<times> rat option list) option" where
  \<comment> \<open>\<open>Some\<close> exactly when the guard \<open>!radiations || radiations.error || !radiations.hourly
      || !radiations.hourly[param]\<close> is false.\<close>
  "hourly_samples radiations param =
     (case radiations of
        None \<Rightarrow> None
      | Some r \<Rightarrow>
          if error_flag r then None
          else (case hourly r of
                  None \<Rightarrow> None
                | Some h \<Rightarrow>
                    (case map_of (variables h) param of
                       None \<Rightarrow> None
                     | Some xs \<Rightarrow> Some (h, xs))))"

definition targetDate :: "(int \<Rightarrow> int) \<Rightarrow> string \<Rightarrow> error + string" where
  \<comment> \<open>\<open>formatDateWithoutHyphen(new Date(parseInt(date.slice(0, 4)),
      parseInt(date.slice(4, 6)) - 1, parseInt(date.slice(6, 8))))\<close>\<close>
  "targetDate tz d =
     formatDateWithoutHyphen
       (new_Date tz (parseInt (slice 0 4 d))
          (map_option (\<lambda>m. m - 1) (parseInt (slice 4 6 d)))
          (parseInt (slice 6 8 d)))"

definition daily_average :: "string list \<Rightarrow> rat option list \<Rightarrow> string \<Rightarrow> rat option" where
  \<comment> \<open>The rest of \<open>safeValueRadiations\<close>, from \<open>indices\<close> on, for \<open>radiations.hourly.time\<close>
      and \<open>radiations.hourly[param]\<close>. The test \<open>val !== null && val !== undefined &&
      !isNaN(val)\<close> keeps exactly the numbers.\<close>
  "daily_average stamps samples target =
     (let indices = filter (\<lambda>i. startsWith (stamps ! i) target) [0..<length stamps]
      in if length indices = 0 then None
         else
           (let vals = map (array_get samples) indices;
                validValues = concat (map (\<lambda>v. case v of Num x \<Rightarrow> [x] | _ \<Rightarrow> []) vals)
            in if length validValues = 0 then None
               else
                 (let average =
                        fl (foldl (\<lambda>sum v. fl (sum + v)) 0 validValues
                            / of_nat (length validValues));
                      maxRadiation = 1000;
                      percentage = fl (fl (average / maxRadiation) * 100)
                  in Some (round1 percentage))))"

definition safeValueRadiations ::
  "(int \<Rightarrow> int) \<Rightarrow> parameter_set \<Rightarrow> radiation_payload option \<Rightarrow> string \<Rightarrow> string \<Rightarrow> string
     \<Rightarrow> error + rat option" where
  "safeValueRadiations tz params radiations param d fallback =
     (case hourly_samples radiations param of
        None \<Rightarrow>
          (let val = num_prop (map_of params fallback) d
           in if val \<noteq> Num (- 999) then
                (case toFixed1 val of Inl e \<Rightarrow> Inl e | Inr x \<Rightarrow> Inr (Some x))
              else Inr None)
      | Some (h, samples) \<Rightarrow>
          (case targetDate tz d of
             Inl e \<Rightarrow> Inl e
           | Inr target \<Rightarrow>
               (case time h of
                  None \<Rightarrow> Inl TypeError
                | Some stamps \<Rightarrow> Inr (daily_average stamps samples target))))"

definition chartItem ::
  "(int \<Rightarrow> int) \<Rightarrow> parameter_set \<Rightarrow> radiation_payload option \<Rightarrow> string \<Rightarrow> error + chart_item" where
  "chartItem tz params radiations d =
     (case safeValueParameters params ''T2M'' d of Inl e \<Rightarrow> Inl e | Inr t \<Rightarrow>
     (case safeValueParameters params ''RH2M'' d of Inl e \<Rightarrow> Inl e | Inr h \<Rightarrow>
     (case safeValueParameters params ''WS10M'' d of Inl e \<Rightarrow> Inl e | Inr w \<Rightarrow>
     (case safeValueRadiations tz params radiations ''diffuse_radiation_instant'' d
             ''ALLSKY_SFC_SW_DWN'' of Inl e \<Rightarrow> Inl e | Inr s \<Rightarrow>
        Inr \<lparr>date = slice 4 6 d @ ''/'' @ slice 6 8 d,
             temp = t, humidity = h, wind = w, solar = s\<rparr>))))"

fun map_items :: "('a \<Rightarrow> error + 'b) \<Rightarrow> 'a list \<Rightarrow> error + 'b list" where
  \<comment> \<open>\<open>xs.map(f)\<close> for an \<open>f\<close> that may throw: the first exception ends the run.\<close>
  "map_items f [] = Inr []"
| "map_items f (x # xs) =
     (case f x of
        Inl e \<Rightarrow> Inl e
      | Inr y \<Rightarrow> (case map_items f xs of Inl e \<Rightarrow> Inl e | Inr ys \<Rightarrow> Inr (y # ys)))"

definition allDates :: "parameter_set \<Rightarrow> string list" where
  \<comment> \<open>\<open>Object.keys(params.T2M || {})\<close>\<close>
  "allDates params = object_keys (case map_of params ''T2M'' of None \<Rightarrow> [] | Some m \<Rightarrow> m)"

definition validDates :: "parameter_set \<Rightarrow> string list" where
  "validDates params =
     filter (\<lambda>d. num_prop (map_of params ''T2M'') d \<noteq> Num (- 999)) (allDates params)"

definition chartDates :: "parameter_set \<Rightarrow> string list" where
  "chartDates params = slice_last 7 (validDates params)"

definition normalize ::
  "(int \<Rightarrow> int) \<Rightarrow> daily_payload option \<Rightarrow> radiation_payload option \<Rightarrow> error + snapshot" where
  \<comment> \<open>The body of the \<open>.then\<close> callback of \<open>Dashboard\<close>, up to the value passed to \<open>setData\<close>.\<close>
  "normalize tz parameters radiations =
     (case Option.bind (Option.bind parameters properties) parameter of
        None \<Rightarrow> Inl (DataError ''Invalid data format received from API'')
      | Some params \<Rightarrow>
          if length (validDates params) = 0 then
            Inl (DataError ''No valid data available for this location'')
          else
            (case map_items (chartItem tz params radiations) (chartDates params) of
               Inl e \<Rightarrow> Inl e
             | Inr items \<Rightarrow>
                 (let chartData = filter (\<lambda>item. temp item \<noteq> None) items;
                      latest = array_last chartData;
                      currentData =
                        \<lparr>cur_temp = or0 (Option.bind latest temp),
                         cur_humidity = or0 (Option.bind latest humidity),
                         cur_wind = or0 (Option.bind latest wind),
                         cur_solar = or0 (Option.bind latest solar)\<rparr>
                  in Inr \<lparr>current = currentData, chart = chartData,
                          latestDate = array_last (chartDates params)\<rparr>)))"

section \<open>The fetch layer (src/utils/fetchNASAData.js)\<close>

text \<open>
  The network is given by what each of the two requests would settle to: a rejection with
  its cause, or a response with its \<open>ok\<close> flag and the outcome of reading its body as
  JSON. The function is run against such a network and returns, with its result, the
  events it caused, in program order.
\<close>

datatype request = RequestA | RequestB

datatype cause = NetworkFailure | InvalidJSON

datatype event = Issued request | Responded request | BodyRead request

record 'j response =
  ok :: bool
  json :: "cause + 'j"

record ('p, 'r) network =
  resA :: "cause + 'p response"
  resB :: "cause + 'r response"

definition fetchNASAData :: "('p, 'r) network \<Rightarrow> event list \<times> (cause + 'p \<times> 'r option)" where
  \<comment> \<open>The \<open>try\<close> block; the \<open>catch\<close> block logs the error and throws it again. The two URLs
      are built from the coordinates and the dates beforehand and decide neither the
      order of the calls nor what is returned.\<close>
  "fetchNASAData net =
     (case resA net of
        Inl e \<Rightarrow> ([Issued RequestA], Inl e)
      | Inr resParameters \<Rightarrow>
     (case resB net of
        Inl e \<Rightarrow> ([Issued RequestA, Responded RequestA, Issued RequestB], Inl e)
      | Inr resRadiations \<Rightarrow>
     (case json resParameters of
        Inl e \<Rightarrow>
          ([Issued RequestA, Responded RequestA, Issued RequestB, Responded RequestB,
            BodyRead RequestA], Inl e)
      | Inr parameters \<Rightarrow>
          if ok resRadiations then
            (case json resRadiations of
               Inl e \<Rightarrow>
                 ([Issued RequestA, Responded RequestA, Issued RequestB, Responded RequestB,
                   BodyRead RequestA, BodyRead RequestB], Inl e)
             | Inr radiations \<Rightarrow>
                 ([Issued RequestA, Responded RequestA, Issued RequestB, Responded RequestB,
                   BodyRead RequestA, BodyRead RequestB], Inr (parameters, Some radiations)))
          else
            ([Issued RequestA, Responded RequestA, Issued RequestB, Responded RequestB,
              BodyRead RequestA], Inr (parameters, None)))))"

section \<open>Notions used in the properties\<close>

definition date_key :: "string \<Rightarrow> bool" where
  \<comment> \<open>A key \<open>YYYYMMDD\<close>: eight digits, the year written without a leading zero.\<close>
  "date_key k = (length k = 8 \<and> list_all is_digit k \<and> hd k \<noteq> CHR ''0'')"

definition chronological :: "string list \<Rightarrow> bool" where
  \<comment> \<open>Strictly ascending dates: of two \<open>YYYYMMDD\<close> keys the earlier one is the smaller number.\<close>
  "chronological ks = sorted_wrt (\<lambda>a b. digits_val a < digits_val b) ks"


definition dispatched_without_waiting :: "event list \<Rightarrow> bool" where
  \<comment> \<open>Request B is issued, and issued before the response to Request A has arrived.\<close>
  "dispatched_without_waiting trace =
     (Issued RequestB \<in> set (takeWhile (\<lambda>e. e \<noteq> Responded RequestA) trace))"

definition payload :: "parameter_set \<Rightarrow> daily_payload option" where
  "payload params = Some \<lparr>properties = Some \<lparr>parameter = Some params\<rparr>\<rparr>"

definition utc :: "int \<Rightarrow> int" where
  "utc t = 0"

definition utc_plus_1 :: "int \<Rightarrow> int" where
  \<comment> \<open>A host one hour east of Greenwich.\<close>
  "utc_plus_1 t = 3600000"

definition scenario_params :: parameter_set where
  "scenario_params =
     [(''T2M'', [(''20240101'', 41 / 2), (''20240102'', - 999)]),
      (''RH2M'', [(''20240101'', 60), (''20240102'', 55)]),
      (''WS10M'', [(''20240101'', 3), (''20240102'', 4)]),
      (''ALLSKY_SFC_SW_DWN'', [(''20240101'', 200), (''20240102'', 210)])]"

definition scenario_radiations :: "radiation_payload option" where
  "scenario_radiations =
     Some \<lparr>error_flag = False,
           hourly = Some \<lparr>time = Some [''2024-01-01T00:00'', ''2024-01-01T12:00''],
                           variables = [(''diffuse_radiation_instant'', [Some 100, Some 300])]\<rparr>\<rparr>"

text \<open>Concrete inputs for the examples.\<close>

definition week_t2m :: date_series where
  "week_t2m =
     [(''20240105'', 5), (''20240101'', 1), (''20240102'', - 999), (''20240103'', 3),
      (''20240104'', 4), (''20240106'', 6), (''20240107'', 7), (''20240108'', 8),
      (''20240109'', 9), (''20240110'', 10)]"

definition week_params :: parameter_set where
  "week_params =
     [(''T2M'', week_t2m), (''RH2M'', week_t2m), (''WS10M'', week_t2m),
      (''ALLSKY_SFC_SW_DWN'', week_t2m)]"


definition week_snapshot :: snapshot where
  "week_snapshot =
     \<lparr>current = \<lparr>cur_temp = 10, cur_humidity = 10, cur_wind = 10, cur_solar = 10\<rparr>,
      chart =
        [\<lparr>date = ''01/04'', temp = Some 4, humidity = Some 4, wind = Some 4, solar = Some 4\<rparr>,
         \<lparr>date = ''01/05'', temp = Some 5, humidity = Some 5, wind = Some 5, solar = Some 5\<rparr>,
         \<lparr>date = ''01/06'', temp = Some 6, humidity = Some 6, wind = Some 6, solar = Some 6\<rparr>,
         \<lparr>date = ''01/07'', temp = Some 7, humidity = Some 7, wind = Some 7, solar = Some 7\<rparr>,
         \<lparr>date = ''01/08'', temp = Some 8, humidity = Some 8, wind = Some 8, solar = Some 8\<rparr>,
         \<lparr>date = ''01/09'', temp = Some 9, humidity = Some 9, wind = Some 9, solar = Some 9\<rparr>,
         \<lparr>date = ''01/10'', temp = Some 10, humidity = Some 10, wind = Some 10,
           solar = Some 10\<rparr>],
      latestDate = Some ''20240110''\<rparr>"

definition scenario_snapshot :: snapshot where
  "scenario_snapshot =
     \<lparr>current = \<lparr>cur_temp = 41 / 2, cur_humidity = 60, cur_wind = 3, cur_solar = 200\<rparr>,
      chart = [\<lparr>date = ''01/01'', temp = Some (41 / 2), humidity = Some 60, wind = Some 3,
                solar = Some 200\<rparr>],
      latestDate = Some ''20240101''\<rparr>"



definition no_humidity_params :: parameter_set where
  "no_humidity_params =
     [(''T2M'', [(''20240101'', 41 / 2)]), (''RH2M'', []),
      (''WS10M'', [(''20240101'', 3)]), (''ALLSKY_SFC_SW_DWN'', [(''20240101'', 200)])]"

definition no_wind_params :: parameter_set where
  "no_wind_params =
     [(''T2M'', [(''20240101'', 41 / 2)]), (''RH2M'', [(''20240101'', 60)]),
      (''ALLSKY_SFC_SW_DWN'', [(''20240101'', 200)])]"

definition no_solar_params :: parameter_set where
  "no_solar_params =
     [(''T2M'', [(''20240101'', 41 / 2)]), (''RH2M'', [(''20240101'', 60)]),
      (''WS10M'', [(''20240101'', 3)]), (''ALLSKY_SFC_SW_DWN'', [(''20231231'', 200)])]"

definition temperature_only_params :: parameter_set where
  "temperature_only_params = [(''T2M'', [(''20240101'', 41 / 2)])]"

definition both_respond :: "(unit, unit) network" where
  "both_respond = \<lparr>resA = Inr \<lparr>ok = True, json = Inr ()\<rparr>, resB = Inr \<lparr>ok = True, json = Inr ()\<rparr>\<rparr>"

definition first_rejected :: "(unit, unit) network" where
  "first_rejected = \<lparr>resA = Inl NetworkFailure, resB = Inr \<lparr>ok = True, json = Inr ()\<rparr>\<rparr>"

definition second_rejected :: "(unit, unit) network" where
  "second_rejected = \<lparr>resA = Inr \<lparr>ok = True, json = Inr ()\<rparr>, resB = Inl NetworkFailure\<rparr>"

definition second_not_ok :: "(unit, unit) network" where
  "second_not_ok =
     \<lparr>resA = Inr \<lparr>ok = False, json = Inr ()\<rparr>, resB = Inr \<lparr>ok = False, json = Inl InvalidJSON\<rparr>\<rparr>"

section \<open>Rounding\<close>

text \<open>
  \<open>fl\<close> on values whose doubles are known: 0.2, 123.456 and -0.3 are not doubles, the
  integers above \<open>2^53\<close> show the ties, and 200, 20.5 and -999 are doubles already.
\<close>

lemma fl_one_fifth: "fl (1 / 5) = 3602879701896397 / 18014398509481984"
  by code_simp

lemma fl_decimal: "fl (123456 / 1000) = 8687443681197687 / 2 ^ 46"
  by code_simp

lemma fl_ties_to_even: "fl (2 ^ 53 + 1) = 2 ^ 53 \<and> fl (2 ^ 53 + 3) = 2 ^ 53 + 4"
  by code_simp

lemma fl_negative: "fl (- 3 / 10) = - 5404319552844595 / 2 ^ 54"
  by code_simp

lemma fl_exact: "fl 200 = 200 \<and> fl (41 / 2) = 41 / 2 \<and> fl (- 999) = - 999"
  by code_simp





lemma round1_examples:
  "round1 (3273 / 16) = 1023 / 5 \<and> round1 (801 / 4) = 2003 / 10
   \<and> round1 (- 801 / 4) = - 2003 / 10 \<and> round1 (1 / 4) = 3 / 10
   \<and> round1 (5404319552844595 / 2 ^ 55) = 1 / 10 \<and> round1 20 = 20"
  by code_simp

section \<open>The display formatter\<close>

lemma formatDisplayDate_example: "formatDisplayDate (Some ''20240115'') = ''15/01/2024''"
  by (simp add: formatDisplayDate_def slice_def)

lemma formatDisplayDate_other_length:
  "dateStr = None \<or> (\<exists>s. dateStr = Some s \<and> length s \<noteq> 8) \<Longrightarrow> formatDisplayDate dateStr = ''N/A''"
  by (auto simp: formatDisplayDate_def)

lemma formatDisplayDate_eight:
  "length s = 8 \<Longrightarrow> formatDisplayDate (Some s) = slice 6 8 s @ ''/'' @ slice 4 6 s @ ''/'' @ slice 0 4 s"
  by (auto simp: formatDisplayDate_def)

text \<open>
  C6. The formatter maps "20240115" to "15/01/2024" and every key of another length, or
  an absent one, to "N/A" (the two lemmas above). An 8-character key that is not numeric
  is not mapped to "N/A": only the length is tested, and the characters are rearranged
  as they are.
\<close>

theorem formatDisplayDate_non_numeric:
  "formatDisplayDate (Some ''abcdefgh'') = ''gh/ef/abcd''
   \<and> formatDisplayDate (Some ''abcdefgh'') \<noteq> ''N/A''"
  by (simp add: formatDisplayDate_def slice_def)

section \<open>The time zone of the host\<close>

lemma targetDate_utc: "targetDate utc ''20240101'' = Inr ''2024-01-01''"
  by code_simp

lemma targetDate_utc_plus_1: "targetDate utc_plus_1 ''20240101'' = Inr ''2023-12-31''"
  by code_simp

lemma solarPercent_hourly_path:
  "hourly_samples radiations param = Some (h, samples) \<Longrightarrow> time h = Some stamps \<Longrightarrow>
   targetDate tz d = Inr target \<Longrightarrow>
   safeValueRadiations tz params radiations param d fallback
     = Inr (daily_average stamps samples target)"
  by (simp add: safeValueRadiations_def)

lemma daily_average_scenario:
  "daily_average [''2024-01-01T00:00'', ''2024-01-01T12:00''] [Some 100, Some 300] ''2024-01-01''
     = Some 20"
  by code_simp

lemma daily_average_in_doubles:
  "daily_average [''2024-01-01T00:00'', ''2024-01-01T12:00''] [Some 1, Some 2] ''2024-01-01''
     = Some (1 / 10)"
  by code_simp

lemma daily_average_skips_null_and_missing:
  "daily_average
     [''2024-01-01T00:00'', ''2024-01-01T06:00'', ''2024-01-01T12:00'', ''2024-01-01T18:00'',
      ''2024-01-02T00:00'']
     [Some 100, None, Some 300] ''2024-01-01'' = Some 20"
  by code_simp

lemma daily_average_other_day:
  "daily_average [''2024-01-01T00:00'', ''2024-01-02T00:00''] [Some 100, Some 300] ''2024-01-02''
     = Some 30"
  by code_simp

lemma daily_average_null:
  "daily_average [''2024-01-01T00:00''] [Some 100] ''2023-12-31'' = None
   \<and> daily_average [''2024-01-01T00:00'', ''2024-01-01T12:00''] [None] ''2024-01-01'' = None"
  by code_simp

lemma solarPercent_scenario_utc:
  "safeValueRadiations utc scenario_params scenario_radiations
     ''diffuse_radiation_instant'' ''20240101'' ''ALLSKY_SFC_SW_DWN'' = Inr (Some 20)"
  by code_simp

text \<open>
  C3. The result of the normalization is not a function of the two payloads alone: the
  date sought among the hourly timestamps is built in local time and printed in UTC, so
  on a host east of Greenwich it is the day before. On the same two payloads a host on
  UTC finds a solar percentage of 20 for 1 January 2024 and a host on UTC+1 finds none.
\<close>

theorem normalize_depends_on_time_zone:
  "normalize utc (payload scenario_params) scenario_radiations
     = Inr \<lparr>current = \<lparr>cur_temp = 41 / 2, cur_humidity = 60, cur_wind = 3, cur_solar = 20\<rparr>,
            chart = [\<lparr>date = ''01/01'', temp = Some (41 / 2), humidity = Some 60,
                      wind = Some 3, solar = Some 20\<rparr>],
            latestDate = Some ''20240101''\<rparr>
   \<and> normalize utc_plus_1 (payload scenario_params) scenario_radiations
     = Inr \<lparr>current = \<lparr>cur_temp = 41 / 2, cur_humidity = 60, cur_wind = 3, cur_solar = 0\<rparr>,
            chart = [\<lparr>date = ''01/01'', temp = Some (41 / 2), humidity = Some 60,
                      wind = Some 3, solar = None\<rparr>],
            latestDate = Some ''20240101''\<rparr>
   \<and> normalize utc (payload scenario_params) scenario_radiations
     \<noteq> normalize utc_plus_1 (payload scenario_params) scenario_radiations"
  by code_simp

text \<open>
  C4. On the hourly path the solar percentage is the rounded average, over the
  timestamps that start with the date sought, of the samples that are numbers, as a
  percentage of 1000 (lemma \<open>solarPercent_hourly_path\<close>; the lemmas on
  \<open>daily_average\<close> above show the samples of another day, the null and the missing
  samples left out, and the arithmetic done in doubles). For the hourly timestamps
  "2024-01-01T00:00" and "2024-01-01T12:00" with diffuse values 100 and 300, the solar
  percentage of the date "20240101" is 20 on a host on UTC (lemma
  \<open>solarPercent_scenario_utc\<close>). On a host on UTC+1 the date sought is "2023-12-31", not
  the ISO form of the date: no timestamp starts with it, and the solar percentage is
  null.
\<close>

theorem solarPercent_scenario_utc_plus_1:
  "safeValueRadiations utc_plus_1 scenario_params scenario_radiations
     ''diffuse_radiation_instant'' ''20240101'' ''ALLSKY_SFC_SW_DWN'' = Inr None"
  by code_simp

section \<open>The order of the date keys\<close>

lemma digits_acc_shift: "digits_acc n cs = n * 10 ^ length cs + digits_acc 0 cs"
proof (induction cs arbitrary: n)
  case Nil
  then show ?case by simp
next
  case (Cons c cs)
  have "digits_acc n (c # cs) = digits_acc (10 * n + digit_val c) cs" by simp
  also have "\<dots> = (10 * n + digit_val c) * 10 ^ length cs + digits_acc 0 cs"
    by (rule Cons.IH)
  also have "digits_acc 0 cs = digits_acc (digit_val c) cs - digit_val c * 10 ^ length cs"
    using Cons.IH [of "digit_val c"] by simp
  also have "digits_acc (digit_val c) cs = digits_acc 0 (c # cs)" by simp
  finally show ?case by (simp add: algebra_simps)
qed

lemma digit_val_range: "is_digit c \<Longrightarrow> 0 \<le> digit_val c \<and> digit_val c \<le> 9"
  by (simp add: is_digit_def digit_val_def)

lemma digits_acc_bounds:
  "list_all is_digit cs \<Longrightarrow> 0 \<le> digits_acc 0 cs \<and> digits_acc 0 cs < 10 ^ length cs"
proof (induction cs)
  case Nil
  then show ?case by simp
next
  case (Cons c cs)
  then have ih: "0 \<le> digits_acc 0 cs" "digits_acc 0 cs < 10 ^ length cs" by simp_all
  from Cons.prems have d: "0 \<le> digit_val c" "digit_val c \<le> 9"
    using digit_val_range by simp_all
  have eq: "digits_acc 0 (c # cs) = digit_val c * 10 ^ length cs + digits_acc 0 cs"
    using digits_acc_shift [of "digit_val c" cs] by simp
  have "digit_val c * 10 ^ length cs \<le> 9 * 10 ^ length cs"
    using d by (simp add: mult_right_mono)
  with ih have "digit_val c * 10 ^ length cs + digits_acc 0 cs < 10 * 10 ^ length cs"
    by linarith
  moreover have "0 \<le> digit_val c * 10 ^ length cs + digits_acc 0 cs"
    using ih d by simp
  ultimately show ?case unfolding eq by simp
qed

lemma digit_val_inj: "is_digit a \<Longrightarrow> is_digit b \<Longrightarrow> digit_val a = digit_val b \<Longrightarrow> a = b"
  by (simp add: digit_val_def is_digit_def)

lemma digits_acc_inj:
  "length xs = length ys \<Longrightarrow> list_all is_digit xs \<Longrightarrow> list_all is_digit ys \<Longrightarrow>
   digits_acc 0 xs = digits_acc 0 ys \<Longrightarrow> xs = ys"
proof (induction xs ys rule: list_induct2)
  case Nil
  then show ?case by simp
next
  case (Cons x xs y ys)
  let ?p = "(10::int) ^ length xs"
  have ex: "digits_acc 0 (x # xs) = digit_val x * ?p + digits_acc 0 xs"
    using digits_acc_shift [of "digit_val x" xs] by simp
  have ey: "digits_acc 0 (y # ys) = digit_val y * ?p + digits_acc 0 ys"
    using digits_acc_shift [of "digit_val y" ys] Cons.hyps by simp
  have bx: "0 \<le> digits_acc 0 xs" "digits_acc 0 xs < ?p"
    using digits_acc_bounds [of xs] Cons.prems by simp_all
  have by': "0 \<le> digits_acc 0 ys" "digits_acc 0 ys < ?p"
    using digits_acc_bounds [of ys] Cons.prems Cons.hyps by simp_all
  have eq: "digit_val x * ?p + digits_acc 0 xs = digit_val y * ?p + digits_acc 0 ys"
    using Cons.prems(3) ex ey by simp
  have "digit_val x = digit_val y"
  proof (rule ccontr)
    assume ne: "digit_val x \<noteq> digit_val y"
    show False
    proof (cases "digit_val x < digit_val y")
      case True
      then have "digit_val x + 1 \<le> digit_val y" by simp
      then have "(digit_val x + 1) * ?p \<le> digit_val y * ?p" by (simp add: mult_right_mono)
      with eq bx by' show False by (simp add: algebra_simps)
    next
      case False
      with ne have "digit_val y + 1 \<le> digit_val x" by simp
      then have "(digit_val y + 1) * ?p \<le> digit_val x * ?p" by (simp add: mult_right_mono)
      with eq bx by' show False by (simp add: algebra_simps)
    qed
  qed
  moreover from this eq have "digits_acc 0 xs = digits_acc 0 ys" by simp
  ultimately show ?case using Cons.prems Cons.IH digit_val_inj by auto
qed

lemma date_key_array_index: "date_key k \<Longrightarrow> is_array_index k"
proof -
  assume dk: "date_key k"
  then have len: "length k = 8" and dig: "list_all is_digit k" and hd0: "hd k \<noteq> CHR ''0''"
    by (simp_all add: date_key_def)
  have "digits_acc 0 k < 10 ^ length k" using digits_acc_bounds [OF dig] by simp
  then have "digits_val k \<le> 4294967294" by (simp add: digits_val_def len)
  moreover from len have "k \<noteq> []" by auto
  ultimately show ?thesis using len dig hd0 by (simp add: is_array_index_def)
qed

lemma object_keys_date_keyed:
  assumes "\<forall>k\<in>set (map fst ps). date_key k"
  shows "object_keys ps = sort_key digits_val (map fst ps)"
proof -
  have "\<forall>k\<in>set (map fst ps). is_array_index k"
    using assms date_key_array_index by blast
  then have "filter is_array_index (map fst ps) = map fst ps"
    and "filter (\<lambda>k. \<not> is_array_index k) (map fst ps) = []"
    by (simp_all add: filter_empty_conv)
  then show ?thesis by (simp add: object_keys_def)
qed

lemma digits_val_inj_on: "inj_on digits_val {k. date_key k}"
  by (rule inj_onI) (auto simp: date_key_def digits_val_def intro: digits_acc_inj)

lemma object_keys_chronological:
  assumes dk: "\<forall>k\<in>set (map fst ps). date_key k" and di: "distinct (map fst ps)"
  shows "sorted_wrt (\<lambda>a b. digits_val a < digits_val b) (object_keys ps)"
proof -
  let ?ks = "sort_key digits_val (map fst ps)"
  have s: "sorted (map digits_val ?ks)" by (rule sorted_sort_key)
  have "distinct ?ks" using di by simp
  moreover have "inj_on digits_val (set ?ks)"
    using dk by (auto intro!: inj_on_subset [OF digits_val_inj_on])
  ultimately have "distinct (map digits_val ?ks)" by (simp add: distinct_map)
  with s have "sorted_wrt (<) (map digits_val ?ks)" by (simp add: strict_sorted_iff)
  then show ?thesis by (simp add: object_keys_date_keyed [OF dk] sorted_wrt_map)
qed


lemma object_keys_distinct:
  assumes dk: "\<forall>k\<in>set (map fst ps). date_key k" and di: "distinct (map fst ps)"
  shows "distinct (object_keys ps)" and "set (object_keys ps) = fst ` set ps"
  using di by (simp_all add: object_keys_date_keyed [OF dk])

section \<open>What a successful run returns\<close>

lemma map_items_Inr: "map_items f xs = Inr ys \<Longrightarrow> list_all2 (\<lambda>x y. f x = Inr y) xs ys"
proof (induction xs arbitrary: ys)
  case Nil
  then show ?case by simp
next
  case (Cons x xs)
  then show ?case by (auto split: sum.splits)
qed

lemma map_items_Inl: "map_items f xs = Inl e \<Longrightarrow> \<exists>x\<in>set xs. f x = Inl e"
proof (induction xs)
  case Nil
  then show ?case by simp
next
  case (Cons x xs)
  then show ?case by (auto split: sum.splits)
qed

lemma validDates_not_sentinel:
  "d \<in> set (validDates params) \<Longrightarrow> num_prop (map_of params ''T2M'') d \<noteq> Num (- 999)"
  by (simp add: validDates_def)

lemma chartDates_subset: "set (chartDates params) \<subseteq> set (validDates params)"
  by (simp add: chartDates_def slice_last_def set_drop_subset)

lemma chartDates_Nil: "chartDates params = [] \<longleftrightarrow> validDates params = []"
  by (cases "validDates params") (auto simp: chartDates_def slice_last_def)

lemma list_all2_right_ex: "list_all2 P xs ys \<Longrightarrow> y \<in> set ys \<Longrightarrow> \<exists>x\<in>set xs. P x y"
  by (induction xs ys rule: list_all2_induct) auto

lemma chartItem_temp:
  "chartItem tz params radiations d = Inr item \<Longrightarrow>
   num_prop (map_of params ''T2M'') d \<noteq> Num (- 999) \<Longrightarrow> temp item \<noteq> None"
  by (auto simp: chartItem_def safeValueParameters_def split: sum.splits if_splits)

lemma chartItem_date:
  "chartItem tz params radiations d = Inr item \<Longrightarrow> date item = slice 4 6 d @ ''/'' @ slice 6 8 d"
  by (auto simp: chartItem_def split: sum.splits)

lemma items_all_kept:
  assumes "map_items (chartItem tz params radiations) (chartDates params) = Inr items"
  shows "filter (\<lambda>item. temp item \<noteq> None) items = items"
proof -
  have l2: "list_all2 (\<lambda>d item. chartItem tz params radiations d = Inr item) (chartDates params) items"
    using assms by (rule map_items_Inr)
  have "\<forall>item\<in>set items. temp item \<noteq> None"
  proof
    fix item assume "item \<in> set items"
    then obtain d where d: "d \<in> set (chartDates params)"
      and it: "chartItem tz params radiations d = Inr item"
      using list_all2_right_ex [OF l2] by blast
    from d have "num_prop (map_of params ''T2M'') d \<noteq> Num (- 999)"
      using chartDates_subset validDates_not_sentinel by blast
    with it show "temp item \<noteq> None" by (rule chartItem_temp)
  qed
  then show ?thesis by (simp add: filter_id_conv)
qed

lemma normalize_Inr:
  assumes "normalize tz parameters radiations = Inr snap"
  obtains params items where
    "Option.bind (Option.bind parameters properties) parameter = Some params"
    "validDates params \<noteq> []"
    "map_items (chartItem tz params radiations) (chartDates params) = Inr items"
    "chart snap = filter (\<lambda>item. temp item \<noteq> None) items"
    "latestDate snap = array_last (chartDates params)"
    "current snap =
       \<lparr>cur_temp = or0 (Option.bind (array_last (chart snap)) temp),
        cur_humidity = or0 (Option.bind (array_last (chart snap)) humidity),
        cur_wind = or0 (Option.bind (array_last (chart snap)) wind),
        cur_solar = or0 (Option.bind (array_last (chart snap)) solar)\<rparr>"
  using assms
  by (auto simp: normalize_def Let_def split: option.splits if_splits sum.splits)


lemma normalize_Inr_payload:
  assumes "normalize tz parameters radiations = Inr snap"
  shows "\<exists>params. parameters = payload params"
proof -
  from assms obtain ps where
    "Option.bind (Option.bind parameters properties) parameter = Some ps"
    by (rule normalize_Inr)
  then obtain a y where "parameters = Some a" "properties a = Some y" "parameter y = Some ps"
    by (auto simp: Option.bind_eq_Some_conv)
  then have "parameters = payload ps"
    by (cases a, cases y) (simp add: payload_def)
  then show ?thesis ..
qed

lemma run_chart:
  assumes run: "normalize tz (payload params) radiations = Inr snap"
  shows "map_items (chartItem tz params radiations) (chartDates params) = Inr (chart snap)"
    and "validDates params \<noteq> []"
    and "latestDate snap = array_last (chartDates params)"
    and "current snap =
       \<lparr>cur_temp = or0 (Option.bind (array_last (chart snap)) temp),
        cur_humidity = or0 (Option.bind (array_last (chart snap)) humidity),
        cur_wind = or0 (Option.bind (array_last (chart snap)) wind),
        cur_solar = or0 (Option.bind (array_last (chart snap)) solar)\<rparr>"
proof -
  from run obtain ps items where
    ps: "Option.bind (Option.bind (payload params) properties) parameter = Some ps"
    and v: "validDates ps \<noteq> []"
    and m: "map_items (chartItem tz ps radiations) (chartDates ps) = Inr items"
    and c: "chart snap = filter (\<lambda>item. temp item \<noteq> None) items"
    and l: "latestDate snap = array_last (chartDates ps)"
    and cur: "current snap =
       \<lparr>cur_temp = or0 (Option.bind (array_last (chart snap)) temp),
        cur_humidity = or0 (Option.bind (array_last (chart snap)) humidity),
        cur_wind = or0 (Option.bind (array_last (chart snap)) wind),
        cur_solar = or0 (Option.bind (array_last (chart snap)) solar)\<rparr>"
    by (rule normalize_Inr)
  from ps have eq: "ps = params" by (simp add: payload_def)
  from c items_all_kept [OF m] have "chart snap = items" by simp
  with m eq show "map_items (chartItem tz params radiations) (chartDates params) = Inr (chart snap)"
    by simp
  from v eq show "validDates params \<noteq> []" by simp
  from l eq show "latestDate snap = array_last (chartDates params)" by simp
  from cur show "current snap =
       \<lparr>cur_temp = or0 (Option.bind (array_last (chart snap)) temp),
        cur_humidity = or0 (Option.bind (array_last (chart snap)) humidity),
        cur_wind = or0 (Option.bind (array_last (chart snap)) wind),
        cur_solar = or0 (Option.bind (array_last (chart snap)) solar)\<rparr>" .
qed

lemma list_all2_last:
  "list_all2 P xs ys \<Longrightarrow> xs \<noteq> [] \<Longrightarrow> P (last xs) (last ys)"
  by (induction xs ys rule: list_all2_induct) auto

lemma num_prop_sentinel:
  "num_prop (Some m) k \<noteq> Num (- 999) \<longleftrightarrow> map_of m k \<noteq> Some (- 999)"
  by (simp add: num_prop_def get_prop_def split: option.splits)

text \<open>
  C9. After a successful run the temperature filter has removed nothing: the series is
  the list of the entries derived from the kept dates, each with a temperature that is
  not null; it is not empty; \<open>latestDate\<close> is the last kept date, the last entry of the
  series is the entry derived from that date, and \<open>current\<close> is read off that entry.
  (A run succeeds only on a payload that has \<open>properties.parameter\<close>: lemma
  \<open>normalize_Inr_payload\<close>.)
\<close>

theorem temperature_filter_removes_nothing:
  assumes run: "normalize tz (payload params) radiations = Inr snap"
  shows "map_items (chartItem tz params radiations) (chartDates params) = Inr (chart snap)
       \<and> list_all (\<lambda>item. temp item \<noteq> None) (chart snap)
       \<and> chart snap \<noteq> []
       \<and> length (chart snap) = length (chartDates params)
       \<and> latestDate snap = Some (last (chartDates params))
       \<and> chartItem tz params radiations (last (chartDates params)) = Inr (last (chart snap))
       \<and> current snap =
            \<lparr>cur_temp = or0 (temp (last (chart snap))),
             cur_humidity = or0 (humidity (last (chart snap))),
             cur_wind = or0 (wind (last (chart snap))),
             cur_solar = or0 (solar (last (chart snap)))\<rparr>"
proof -
  note rc = run_chart [OF run]
  have l2: "list_all2 (\<lambda>d item. chartItem tz params radiations d = Inr item)
              (chartDates params) (chart snap)"
    using rc(1) by (rule map_items_Inr)
  have ne: "chartDates params \<noteq> []" using rc(2) by (simp add: chartDates_Nil)
  have len: "length (chart snap) = length (chartDates params)"
    using l2 by (simp add: list_all2_lengthD)
  with ne have cne: "chart snap \<noteq> []" by auto
  have kept: "list_all (\<lambda>item. temp item \<noteq> None) (chart snap)"
    using items_all_kept [OF rc(1)] by (simp add: filter_id_conv list_all_iff)
  have lastd: "latestDate snap = Some (last (chartDates params))"
    using rc(3) ne by (simp add: array_last_def)
  have lasti: "chartItem tz params radiations (last (chartDates params)) = Inr (last (chart snap))"
    using list_all2_last [OF l2 ne] .
  have cur: "current snap =
            \<lparr>cur_temp = or0 (temp (last (chart snap))),
             cur_humidity = or0 (humidity (last (chart snap))),
             cur_wind = or0 (wind (last (chart snap))),
             cur_solar = or0 (solar (last (chart snap)))\<rparr>"
    using rc(4) cne by (simp add: array_last_def)
  from rc(1) kept cne len lastd lasti cur show ?thesis by blast
qed

theorem temperature_filter_removes_nothing_witness:
  "normalize utc (payload scenario_params) None = Inr scenario_snapshot
   \<and> map_items (chartItem utc scenario_params None) (chartDates scenario_params)
       = Inr (chart scenario_snapshot)
   \<and> list_all (\<lambda>item. temp item \<noteq> None) (chart scenario_snapshot)
   \<and> chart scenario_snapshot \<noteq> []
   \<and> latestDate scenario_snapshot = Some (last (chartDates scenario_params))
   \<and> chartItem utc scenario_params None (last (chartDates scenario_params))
       = Inr (last (chart scenario_snapshot))"
proof -
  have run: "normalize utc (payload scenario_params) None = Inr scenario_snapshot" by code_simp
  from temperature_filter_removes_nothing [OF run] run show ?thesis by simp
qed

text \<open>
  C1. After a successful run on a payload whose temperature map is keyed by dates: the
  valid dates are the keys of the temperature map whose value is not -999, in
  chronological order whatever the order of the keys in the payload; the kept dates are
  all of them when there are at most 7 and the last 7 otherwise, every dropped date
  being earlier than every kept one; and the series has one entry per kept date, in
  that order, so that its length is the smaller of 7 and the number of valid dates.
\<close>

theorem series_keeps_last_seven_valid_dates:
  assumes run: "normalize tz (payload params) radiations = Inr snap"
    and t2m: "map_of params ''T2M'' = Some t2m"
    and di: "distinct (map fst t2m)"
    and dk: "\<forall>k\<in>set (map fst t2m). date_key k"
  shows "set (validDates params) = {k \<in> set (map fst t2m). map_of t2m k \<noteq> Some (- 999)}
       \<and> chronological (validDates params)
       \<and> list_all2 (\<lambda>d item. chartItem tz params radiations d = Inr item)
            (chartDates params) (chart snap)
       \<and> (if length (validDates params) \<le> 7 then chartDates params = validDates params
           else length (chartDates params) = 7)
       \<and> length (chart snap) = min 7 (length (validDates params))
       \<and> (\<exists>older. validDates params = older @ chartDates params
             \<and> list_all (\<lambda>a. list_all (\<lambda>b. digits_val a < digits_val b) (chartDates params)) older)"
proof -
  let ?valid = "validDates params"
  have ad: "allDates params = object_keys t2m" by (simp add: allDates_def t2m)
  have vd: "?valid = filter (\<lambda>k. map_of t2m k \<noteq> Some (- 999)) (object_keys t2m)"
    by (simp add: validDates_def ad t2m num_prop_sentinel)
  have a: "set ?valid = {k \<in> set (map fst t2m). map_of t2m k \<noteq> Some (- 999)}"
    using object_keys_distinct(2) [OF dk di] by (auto simp: vd)
  have b: "chronological ?valid"
    unfolding chronological_def vd
    by (rule sorted_wrt_filter) (rule object_keys_chronological [OF dk di])
  have c: "list_all2 (\<lambda>d item. chartItem tz params radiations d = Inr item)
             (chartDates params) (chart snap)"
    using run_chart(1) [OF run] by (rule map_items_Inr)
  have d: "if length ?valid \<le> 7 then chartDates params = ?valid else length (chartDates params) = 7"
    by (simp add: chartDates_def slice_last_def)
  have e: "length (chart snap) = min 7 (length ?valid)"
    using list_all2_lengthD [OF c] by (simp add: chartDates_def slice_last_def)
  have split: "?valid = take (length ?valid - 7) ?valid @ chartDates params"
    by (simp add: chartDates_def slice_last_def)
  have "sorted_wrt (\<lambda>a b. digits_val a < digits_val b)
          (take (length ?valid - 7) ?valid @ chartDates params)"
    using b split by (simp add: chronological_def)
  then have "list_all (\<lambda>a. list_all (\<lambda>b. digits_val a < digits_val b) (chartDates params))
               (take (length ?valid - 7) ?valid)"
    by (simp add: sorted_wrt_append list_all_iff)
  with split have f: "\<exists>older. ?valid = older @ chartDates params
             \<and> list_all (\<lambda>a. list_all (\<lambda>b. digits_val a < digits_val b) (chartDates params)) older"
    by blast
  from a b c d e f show ?thesis by blast
qed


theorem series_keeps_last_seven_valid_dates_witness:
  "normalize utc (payload week_params) None = Inr week_snapshot
   \<and> map_of week_params ''T2M'' = Some week_t2m
   \<and> distinct (map fst week_t2m)
   \<and> list_all date_key (map fst week_t2m)
   \<and> length (validDates week_params) = 9
   \<and> chartDates week_params
       = [''20240104'', ''20240105'', ''20240106'', ''20240107'', ''20240108'', ''20240109'',
          ''20240110'']
   \<and> length (chart week_snapshot) = 7
   \<and> chronological (validDates week_params)
   \<and> list_all2 (\<lambda>d item. chartItem utc week_params None d = Inr item)
        (chartDates week_params) (chart week_snapshot)"
proof -
  have run: "normalize utc (payload week_params) None = Inr week_snapshot" by code_simp
  have t2m: "map_of week_params ''T2M'' = Some week_t2m" by code_simp
  have di: "distinct (map fst week_t2m)" by code_simp
  have dk: "\<forall>k\<in>set (map fst week_t2m). date_key k" by code_simp
  have n: "length (validDates week_params) = 9" by code_simp
  have cd: "chartDates week_params
       = [''20240104'', ''20240105'', ''20240106'', ''20240107'', ''20240108'', ''20240109'',
          ''20240110'']" by code_simp
  from series_keeps_last_seven_valid_dates [OF run t2m di dk] n
  have "length (chart week_snapshot) = 7" "chronological (validDates week_params)"
    "list_all2 (\<lambda>d item. chartItem utc week_params None d = Inr item)
        (chartDates week_params) (chart week_snapshot)"
    by simp_all
  with run t2m di dk n cd show ?thesis by (simp add: list_all_iff)
qed

section \<open>The fallback of the solar percentage\<close>





section \<open>The errors of the normalization\<close>

lemma safeValueParameters_undefined:
  "get_prop (map_of params param) d = None \<Longrightarrow> safeValueParameters params param d = Inl TypeError"
  by (simp add: safeValueParameters_def num_prop_def toFixed1_def)

lemma safeValueParameters_error: "safeValueParameters params param d = Inl e \<Longrightarrow> e = TypeError"
  by (auto simp: safeValueParameters_def toFixed1_def Let_def
           split: if_splits sum.splits jsval.splits)

lemma targetDate_error: "targetDate tz d = Inl e \<Longrightarrow> e = RangeError"
  by (auto simp: targetDate_def formatDateWithoutHyphen_def toISOString_def Let_def
           split: sum.splits option.splits prod.splits)

lemma safeValueRadiations_error:
  "safeValueRadiations tz params radiations param d fallback = Inl e \<Longrightarrow>
   e = TypeError \<or> e = RangeError"
  by (auto simp: safeValueRadiations_def toFixed1_def Let_def dest: targetDate_error
           split: if_splits sum.splits jsval.splits option.splits prod.splits)

lemma chartItem_error:
  "chartItem tz params radiations d = Inl e \<Longrightarrow> e = TypeError \<or> e = RangeError"
  by (auto simp: chartItem_def split: sum.splits
           dest: safeValueParameters_error safeValueRadiations_error)

lemma normalize_DataError_iff:
  "(\<exists>msg. normalize tz parameters radiations = Inl (DataError msg)) \<longleftrightarrow>
   (case Option.bind (Option.bind parameters properties) parameter of
      None \<Rightarrow> True
    | Some params \<Rightarrow> validDates params = [])"
proof (cases "Option.bind (Option.bind parameters properties) parameter")
  case None
  then show ?thesis by (simp add: normalize_def)
next
  case (Some params)
  show ?thesis
  proof (cases "validDates params = []")
    case True
    with Some show ?thesis by (simp add: normalize_def)
  next
    case False
    have "normalize tz parameters radiations \<noteq> Inl (DataError msg)" for msg
    proof
      assume "normalize tz parameters radiations = Inl (DataError msg)"
      with Some False
      have "map_items (chartItem tz params radiations) (chartDates params) = Inl (DataError msg)"
        by (auto simp: normalize_def Let_def split: sum.splits)
      then obtain d where "chartItem tz params radiations d = Inl (DataError msg)"
        using map_items_Inl by blast
      then show False using chartItem_error by blast
    qed
    with Some False show ?thesis by simp
  qed
qed

lemma normalize_all_sentinel:
  assumes t2m: "map_of params ''T2M'' = Some t2m"
    and all: "list_all (\<lambda>kv. snd kv = - 999) t2m"
  shows "normalize tz (payload params) radiations
           = Inl (DataError ''No valid data available for this location'')"
proof -
  have "map_of t2m k = Some (- 999)" if "k \<in> set (object_keys t2m)" for k
  proof -
    from that have "k \<in> fst ` set t2m" by (auto simp: object_keys_def)
    then obtain v where "map_of t2m k = Some v" by (auto dest: weak_map_of_SomeI)
    moreover from this have "(k, v) \<in> set t2m" by (rule map_of_SomeD)
    ultimately show ?thesis using all by (auto simp: list_all_iff)
  qed
  then have "validDates params = []"
    by (auto simp: validDates_def allDates_def t2m num_prop_def get_prop_def filter_empty_conv)
  then show ?thesis by (simp add: normalize_def payload_def)
qed

lemma map_items_total:
  "\<forall>x\<in>set xs. \<exists>y. f x = Inr y \<Longrightarrow> \<exists>ys. map_items f xs = Inr ys"
proof (induction xs)
  case Nil
  then show ?case by simp
next
  case (Cons x xs)
  then obtain y ys where "f x = Inr y" "map_items f xs = Inr ys" by auto
  then show ?case by simp
qed

lemma safeValueParameters_defined:
  "get_prop (map_of params param) d \<noteq> None \<Longrightarrow> \<exists>x. safeValueParameters params param d = Inr x"
  by (auto simp: safeValueParameters_def num_prop_def toFixed1_def Let_def)

lemma allDates_defined:
  assumes "d \<in> set (allDates params)"
  shows "get_prop (map_of params ''T2M'') d \<noteq> None"
proof (cases "map_of params ''T2M''")
  case None
  with assms show ?thesis by (simp add: allDates_def object_keys_def)
next
  case (Some m)
  with assms have "d \<in> fst ` set m" by (auto simp: allDates_def object_keys_def)
  then show ?thesis by (simp add: get_prop_def Some map_of_eq_None_iff)
qed

lemma normalize_succeeds:
  assumes v: "validDates params \<noteq> []"
    and defined: "\<forall>d\<in>set (chartDates params).
        get_prop (map_of params ''RH2M'') d \<noteq> None
      \<and> get_prop (map_of params ''WS10M'') d \<noteq> None
      \<and> (\<exists>s. safeValueRadiations tz params radiations ''diffuse_radiation_instant'' d
                ''ALLSKY_SFC_SW_DWN'' = Inr s)"
  shows "\<exists>snap. normalize tz (payload params) radiations = Inr snap"
proof -
  have "\<exists>item. chartItem tz params radiations d = Inr item" if d: "d \<in> set (chartDates params)" for d
  proof -
    from d have "d \<in> set (allDates params)"
      using chartDates_subset by (auto simp: validDates_def)
    then obtain t where t: "safeValueParameters params ''T2M'' d = Inr t"
      using allDates_defined safeValueParameters_defined by blast
    from d defined obtain h w s where
      "safeValueParameters params ''RH2M'' d = Inr h"
      "safeValueParameters params ''WS10M'' d = Inr w"
      "safeValueRadiations tz params radiations ''diffuse_radiation_instant'' d
         ''ALLSKY_SFC_SW_DWN'' = Inr s"
      using safeValueParameters_defined by blast
    with t show ?thesis by (simp add: chartItem_def)
  qed
  then obtain items where
    "map_items (chartItem tz params radiations) (chartDates params) = Inr items"
    using map_items_total [of "chartDates params" "chartItem tz params radiations"] by blast
  with v show ?thesis by (simp add: normalize_def payload_def Let_def)
qed

text \<open>
  C10. The derivation of a date's fields is not total on payloads that have
  \<open>properties.parameter\<close> and a valid date. Where the RH2M map has no entry at a valid
  date, where the WS10M map is missing, or where (on the fallback path) the
  ALLSKY_SFC_SW_DWN map has no entry at that date, the value read is \<open>undefined\<close>, which
  differs from -999, \<open>toFixed\<close> is called on it, and the normalization throws a type
  error instead of yielding a null field.
\<close>

theorem missing_entry_throws_TypeError:
  "''20240101'' \<in> set (validDates no_humidity_params)
   \<and> get_prop (map_of no_humidity_params ''RH2M'') ''20240101'' = None
   \<and> safeValueParameters no_humidity_params ''RH2M'' ''20240101'' = Inl TypeError
   \<and> normalize tz (payload no_humidity_params) radiations = Inl TypeError
   \<and> ''20240101'' \<in> set (validDates no_wind_params)
   \<and> get_prop (map_of no_wind_params ''WS10M'') ''20240101'' = None
   \<and> safeValueParameters no_wind_params ''WS10M'' ''20240101'' = Inl TypeError
   \<and> normalize tz (payload no_wind_params) radiations = Inl TypeError
   \<and> ''20240101'' \<in> set (validDates no_solar_params)
   \<and> get_prop (map_of no_solar_params ''ALLSKY_SFC_SW_DWN'') ''20240101'' = None
   \<and> safeValueRadiations tz no_solar_params None ''diffuse_radiation_instant'' ''20240101''
        ''ALLSKY_SFC_SW_DWN'' = Inl TypeError
   \<and> normalize tz (payload no_solar_params) None = Inl TypeError"
  by code_simp

text \<open>
  C2. The normalization throws one of its two data errors exactly when the payload lacks
  \<open>properties.parameter\<close> or has no valid date (lemma \<open>normalize_DataError_iff\<close>), and
  it does so when every temperature is -999 (lemma \<open>normalize_all_sentinel\<close>). It
  succeeds when there is a valid date and, at every kept date, the humidity and wind
  maps have an entry and the solar percentage can be derived (lemma
  \<open>normalize_succeeds\<close>). It does not succeed on every payload that has
  \<open>properties.parameter\<close> and a valid date: on the payload whose only map is the
  temperature map, with one valid date, it throws a type error.
\<close>

theorem valid_date_yet_TypeError:
  "validDates temperature_only_params = [''20240101'']
   \<and> normalize tz (payload temperature_only_params) radiations = Inl TypeError"
  by code_simp


section \<open>The fetch layer\<close>

text \<open>
  C7, as stated: Request B is issued in every run, and before the call for Request A
  has settled. It fails on the network where both calls respond (B is issued after A's
  response) and on the network where the call for A is rejected (B is never issued).
\<close>

theorem request_B_waits_counterexample:
  "fst (fetchNASAData both_respond)
     = [Issued RequestA, Responded RequestA, Issued RequestB, Responded RequestB,
        BodyRead RequestA, BodyRead RequestB]
   \<and> \<not> dispatched_without_waiting (fst (fetchNASAData both_respond))
   \<and> fst (fetchNASAData first_rejected) = [Issued RequestA]
   \<and> Issued RequestB \<notin> set (fst (fetchNASAData first_rejected))"
  by code_simp

text \<open>
  C7, amended. The two requests are issued one after the other: Request B is never
  issued before the call for Request A has settled. When that call is rejected, issuing
  Request A is the only event of the run; when it resolves, the run starts by issuing
  A, receiving A's response and then issuing B.
\<close>

theorem request_B_issued_after_A_settles:
  "\<not> dispatched_without_waiting (fst (fetchNASAData net))
   \<and> (case resA net of
        Inl e \<Rightarrow> fst (fetchNASAData net) = [Issued RequestA]
      | Inr resParameters \<Rightarrow>
          take 3 (fst (fetchNASAData net)) = [Issued RequestA, Responded RequestA, Issued RequestB])"
  by (simp add: fetchNASAData_def dispatched_without_waiting_def split: sum.splits)

text \<open>
  C8, as stated: Request A's body is parsed and returned in every run in which Request
  A itself does not fail, and a failure of Request B is never raised. It fails on the
  network where A responds with a valid body and the call for B is rejected: the run
  ends with B's error, and A's body is neither read nor returned.
\<close>

theorem request_A_returned_counterexample:
  "resA second_rejected = Inr \<lparr>ok = True, json = Inr ()\<rparr>
   \<and> fetchNASAData second_rejected
       = ([Issued RequestA, Responded RequestA, Issued RequestB], Inl NetworkFailure)
   \<and> BodyRead RequestA \<notin> set (fst (fetchNASAData second_rejected))"
  by code_simp

text \<open>
  C8, amended. A rejection of the call for Request A, or of the call for Request B,
  ends the run with that error before any body is read. When both calls resolve,
  Request A's body is read as JSON whatever A's status and a failure of that reading is
  the run's error; Request B's body is read only when A's body was read and B's response
  is ok, and a failure of that reading is the run's error too; when B's response is not
  ok the run returns A's parsed body with null for B, and no error.
\<close>

theorem fetchNASAData_outcomes:
  "(\<forall>e. resA net = Inl e \<longrightarrow>
       snd (fetchNASAData net) = Inl e
       \<and> BodyRead RequestA \<notin> set (fst (fetchNASAData net)))
   \<and> (\<forall>resParameters e. resA net = Inr resParameters \<longrightarrow> resB net = Inl e \<longrightarrow>
       snd (fetchNASAData net) = Inl e
       \<and> BodyRead RequestA \<notin> set (fst (fetchNASAData net)))
   \<and> (\<forall>resParameters resRadiations.
        resA net = Inr resParameters \<longrightarrow> resB net = Inr resRadiations \<longrightarrow>
       BodyRead RequestA \<in> set (fst (fetchNASAData net))
       \<and> (BodyRead RequestB \<in> set (fst (fetchNASAData net)))
           = (ok resRadiations \<and> (\<exists>parameters. json resParameters = Inr parameters))
       \<and> snd (fetchNASAData net)
           = (case json resParameters of
                Inl e \<Rightarrow> Inl e
              | Inr parameters \<Rightarrow>
                  if ok resRadiations then
                    (case json resRadiations of
                       Inl e \<Rightarrow> Inl e
                     | Inr radiations \<Rightarrow> Inr (parameters, Some radiations))
                  else Inr (parameters, None)))"
  by (auto simp: fetchNASAData_def split: sum.splits)

theorem fetchNASAData_outcomes_witness:
  "resA first_rejected = Inl NetworkFailure
   \<and> snd (fetchNASAData first_rejected) = Inl NetworkFailure
   \<and> resA second_rejected = Inr \<lparr>ok = True, json = Inr ()\<rparr>
   \<and> resB second_rejected = Inl NetworkFailure
   \<and> snd (fetchNASAData second_rejected) = Inl NetworkFailure
   \<and> resA second_not_ok = Inr \<lparr>ok = False, json = Inr ()\<rparr>
   \<and> resB second_not_ok = Inr \<lparr>ok = False, json = Inl InvalidJSON\<rparr>
   \<and> snd (fetchNASAData second_not_ok) = Inr ((), None)
   \<and> BodyRead RequestB \<notin> set (fst (fetchNASAData second_not_ok))"
proof -
  have a: "resA first_rejected = Inl NetworkFailure" by code_simp
  have b: "resA second_rejected = Inr \<lparr>ok = True, json = Inr ()\<rparr>"
    "resB second_rejected = Inl NetworkFailure" by code_simp+
  have c: "resA second_not_ok = Inr \<lparr>ok = False, json = Inr ()\<rparr>"
    "resB second_not_ok = Inr \<lparr>ok = False, json = Inl InvalidJSON\<rparr>" by code_simp+
  from fetchNASAData_outcomes [of first_rejected] fetchNASAData_outcomes [of second_rejected]
    fetchNASAData_outcomes [of second_not_ok] a b c
  show ?thesis by simp
qed

end
